theory Spec2Isabelle
  imports Main "HOL-Library.Sublist"
begin

section \<open>Python values, exceptions and string operations\<close>

text \<open>
  Exceptions of the Python code are values. \<open>KeyError k\<close> is a dictionary lookup of a
  missing key \<open>k\<close>, \<open>IndexError\<close> an out-of-range index, and \<open>Raised msg\<close> any
  exception thrown by an external library (market data, web search, language model)
  whose \<open>str(e)\<close> is \<open>msg\<close>.
\<close>

datatype py_error = KeyError string | IndexError | Raised string

fun str_of_error :: "py_error \<Rightarrow> string" where
  "str_of_error (KeyError k) = [CHR 0x27] @ k @ [CHR 0x27]"
| "str_of_error IndexError = ''list index out of range''"
| "str_of_error (Raised msg) = msg"

text \<open>
  Values stored in the dictionaries of the market-data library: strings, numbers and
  \<open>None\<close>. Numbers are floating-point values of the library; their type is the
  parameter \<open>'n\<close>, and the operations the code applies to them are collected in
  \<open>num_ops\<close>: \<open>num_str x\<close> is \<open>str(x)\<close>, and \<open>pct_return cp c\<close> is the formatted
  expression \<open>f"{((cp - c) / c * 100):.2f}"\<close>, \<open>None\<close> when evaluating it raises.
\<close>

datatype 'n pyval = PyStr string | PyNum 'n | PyNone

record 'n num_ops =
  num_str :: "'n \<Rightarrow> string"
  pct_return :: "'n \<Rightarrow> 'n \<Rightarrow> string option"

fun str_of_val :: "'n num_ops \<Rightarrow> 'n pyval \<Rightarrow> string" where
  "str_of_val ops (PyStr s) = s"
| "str_of_val ops (PyNum x) = num_str ops x"
| "str_of_val ops PyNone = ''None''"

type_synonym 'n pydict = "string \<rightharpoonup> 'n pyval"

text \<open>\<open>d.get(k, default)\<close>\<close>

definition dict_get :: "('k \<rightharpoonup> 'v) \<Rightarrow> 'k \<Rightarrow> 'v \<Rightarrow> 'v" where
  "dict_get d k dflt = (case d k of None \<Rightarrow> dflt | Some v \<Rightarrow> v)"

text \<open>\<open>xs[i]\<close> with Python's negative indices; \<open>None\<close> is the IndexError.\<close>

definition py_index :: "'a list \<Rightarrow> int \<Rightarrow> 'a option" where
  "py_index xs i =
     (let n = int (length xs); j = (if i < 0 then n + i else i)
      in if 0 \<le> j \<and> j < n then Some (xs ! nat j) else None)"

text \<open>
  \<open>s.split(sep)\<close> for a non-empty separator: the pieces between the non-overlapping
  occurrences of \<open>sep\<close>, found from the left. \<open>acc\<close> holds the current piece, reversed.
\<close>

fun split_from :: "string \<Rightarrow> string \<Rightarrow> string \<Rightarrow> string list" where
  "split_from sep acc [] = [rev acc]"
| "split_from sep acc (c # cs) =
     (if sep \<noteq> [] \<and> prefix sep (c # cs)
      then rev acc # split_from sep [] (drop (length sep - 1) cs)
      else split_from sep (c # acc) cs)"

definition py_split :: "string \<Rightarrow> string \<Rightarrow> string list" where
  "py_split s sep = split_from sep [] s"

text \<open>
  An f-string is a list of literal pieces and dictionary lookups \<open>{data['k']}\<close>,
  evaluated from the left: the first missing key raises \<open>KeyError\<close>.
\<close>

datatype seg = Lit string | Field string

fun format_segs :: "'n num_ops \<Rightarrow> seg list \<Rightarrow> 'n pydict \<Rightarrow> py_error + string" where
  "format_segs ops [] d = Inr []"
| "format_segs ops (Lit s # segs) d =
     (case format_segs ops segs d of Inl e \<Rightarrow> Inl e | Inr r \<Rightarrow> Inr (s @ r))"
| "format_segs ops (Field k # segs) d =
     (case d k of None \<Rightarrow> Inl (KeyError k)
      | Some v \<Rightarrow> (case format_segs ops segs d of Inl e \<Rightarrow> Inl e
                   | Inr r \<Rightarrow> Inr (str_of_val ops v @ r)))"

section \<open>Quote retrieval: \<open>get_stock_data\<close>\<close>

text \<open>
  The market-data library is a black box. For a ticker it either raises (\<open>Inl msg\<close>,
  from \<open>yf.Ticker\<close>, \<open>stock.info\<close> or \<open>stock.history\<close>) or gives the \<open>info\<close>
  dictionary and the \<open>Close\<close> column of the history, oldest first.
\<close>

record 'n ticker_data =
  info :: "'n pydict"
  hist_close :: "'n list"

type_synonym 'n market = "string \<Rightarrow> string + 'n ticker_data"

definition NA :: "'n pyval" where
  "NA = PyStr ''N/A''"

text \<open>Lines 39-58: the dictionary literal.\<close>

definition base_stock_data :: "string \<Rightarrow> 'n pydict \<Rightarrow> 'n pyval \<Rightarrow> 'n pydict" where
  "base_stock_data ticker_symbol info_dict current_price = map_of
     [(''symbol'', PyStr ticker_symbol),
      (''company_name'', dict_get info_dict ''longName'' NA),
      (''current_price'', current_price),
      (''market_cap'', dict_get info_dict ''marketCap'' NA),
      (''pe_ratio'', dict_get info_dict ''forwardPE'' (dict_get info_dict ''trailingPE'' NA)),
      (''debt_to_equity'', dict_get info_dict ''debtToEquity'' NA),
      (''roe'', dict_get info_dict ''returnOnEquity'' NA),
      (''profit_margin'', dict_get info_dict ''profitMargins'' NA),
      (''revenue_growth'', dict_get info_dict ''revenueGrowth'' NA),
      (''price_to_book'', dict_get info_dict ''priceToBook'' NA),
      (''dividend_yield'', dict_get info_dict ''dividendYield'' NA),
      (''beta'', dict_get info_dict ''beta'' NA),
      (''sector'', dict_get info_dict ''sector'' NA),
      (''industry'', dict_get info_dict ''industry'' NA),
      (''52_week_high'', dict_get info_dict ''fiftyTwoWeekHigh'' NA),
      (''52_week_low'', dict_get info_dict ''fiftyTwoWeekLow'' NA),
      (''volume'', dict_get info_dict ''volume'' NA),
      (''avg_volume'', dict_get info_dict ''averageVolume'' NA)]"

text \<open>
  One of the lines 63-65: the conditional expression
  \<open>f"{((current_price - Close[-k]) / Close[-k] * 100):.2f}" if len(hist_data) >= k else 'N/A'\<close>.
  \<open>None\<close> when it raises.
\<close>

definition trailing_return :: "'n num_ops \<Rightarrow> 'n \<Rightarrow> 'n list \<Rightarrow> nat \<Rightarrow> string option" where
  "trailing_return ops current_price closes k =
     (if length closes \<ge> k
      then (case py_index closes (- int k) of None \<Rightarrow> None
            | Some c \<Rightarrow> pct_return ops current_price c)
      else Some ''N/A'')"

text \<open>
  Lines 62-69: the three assignments in a \<open>try\<close>; when one of them raises, the handler
  sets all three fields to \<open>'N/A'\<close>.
\<close>

definition add_returns :: "'n num_ops \<Rightarrow> 'n \<Rightarrow> 'n list \<Rightarrow> 'n pydict \<Rightarrow> 'n pydict" where
  "add_returns ops current_price closes stock_data =
     (let all_na = stock_data(''1_month_return'' \<mapsto> NA, ''3_month_return'' \<mapsto> NA,
                              ''1_year_return'' \<mapsto> NA)
      in case trailing_return ops current_price closes 30 of None \<Rightarrow> all_na
         | Some r1 \<Rightarrow>
        (case trailing_return ops current_price closes 90 of None \<Rightarrow> all_na
         | Some r3 \<Rightarrow>
        (case trailing_return ops current_price closes 252 of None \<Rightarrow> all_na
         | Some r12 \<Rightarrow>
           stock_data(''1_month_return'' \<mapsto> PyStr r1, ''3_month_return'' \<mapsto> PyStr r3,
                      ''1_year_return'' \<mapsto> PyStr r12))))"

text \<open>
  Lines 24-74. The result \<open>(stock_data, True)\<close> is \<open>Inr stock_data\<close>, and
  \<open>(message, False)\<close> is \<open>Inl message\<close>. The second component is the list of the
  lookups made at the market-data library so far.
\<close>

definition try_fetch_stock ::
  "'n num_ops \<Rightarrow> 'n market \<Rightarrow> string \<Rightarrow> string list \<Rightarrow> (string + 'n pydict) \<times> string list" where
  "try_fetch_stock ops yf ticker_symbol lookups =
     (case yf ticker_symbol of
        Inl msg \<Rightarrow> (Inl (''Error fetching '' @ ticker_symbol @ '': '' @ msg))
      | Inr td \<Rightarrow>
          (let closes = hist_close td
           in if closes \<noteq> []
              then Inr (add_returns ops (last closes) closes
                          (base_stock_data ticker_symbol (info td) (PyNum (last closes))))
              else Inr (base_stock_data ticker_symbol (info td)
                          (dict_get (info td) ''currentPrice'' NA))),
      lookups @ [ticker_symbol])"

text \<open>Lines 87-117: the template of the formatted block.\<close>

definition stock_template :: "seg list" where
  "stock_template =
    [Lit ''\<newline>STOCK DATA FOR '', Field ''symbol'',
     Lit ''\<newline>===============================\<newline>Company: '', Field ''company_name'',
     Lit ''\<newline>Sector: '', Field ''sector'', Lit '' | Industry: '', Field ''industry'',
     Lit ''\<newline>\<newline>CURRENT METRICS:\<newline>- Current Price: $'', Field ''current_price'',
     Lit ''\<newline>- Market Cap: '', Field ''market_cap'',
     Lit ''\<newline>- P/E Ratio: '', Field ''pe_ratio'',
     Lit ''\<newline>- Price to Book: '', Field ''price_to_book'',
     Lit ''\<newline>- Beta: '', Field ''beta'',
     Lit ''\<newline>\<newline>FINANCIAL HEALTH:\<newline>- Debt to Equity: '', Field ''debt_to_equity'',
     Lit ''\<newline>- Return on Equity: '', Field ''roe'',
     Lit ''\<newline>- Profit Margin: '', Field ''profit_margin'',
     Lit ''\<newline>- Revenue Growth: '', Field ''revenue_growth'',
     Lit ''\<newline>- Dividend Yield: '', Field ''dividend_yield'',
     Lit ''\<newline>\<newline>PERFORMANCE:\<newline>- 52 Week High: $'', Field ''52_week_high'',
     Lit ''\<newline>- 52 Week Low: $'', Field ''52_week_low'',
     Lit ''\<newline>- 1 Month Return: '', Field ''1_month_return'',
     Lit ''%\<newline>- 3 Month Return: '', Field ''3_month_return'',
     Lit ''%\<newline>- 1 Year Return: '', Field ''1_year_return'',
     Lit ''%\<newline>\<newline>TRADING DATA:\<newline>- Volume: '', Field ''volume'',
     Lit ''\<newline>- Average Volume: '', Field ''avg_volume'',
     Lit ''\<newline>        '']"

text \<open>
  Lines 76-120. \<open>Inl e\<close>: the exception \<open>e\<close> leaves \<open>get_stock_data\<close>; \<open>Inr s\<close>: the
  string \<open>s\<close> is returned. The second component lists the lookups made, in order.
\<close>

definition get_stock_data ::
  "'n num_ops \<Rightarrow> 'n market \<Rightarrow> string \<Rightarrow> (py_error + string) \<times> string list" where
  "get_stock_data ops yf symbol =
     (let (result, lookups) = try_fetch_stock ops yf symbol [];
          (result, lookups) =
             (if isl result \<and> \<not> suffix ''.NS'' symbol
              then try_fetch_stock ops yf (symbol @ ''.NS'') lookups
              else (result, lookups))
      in (case result of
            Inr data \<Rightarrow> format_segs ops stock_template data
          | Inl message \<Rightarrow> Inr message,
          lookups))"

section \<open>News retrieval: \<open>search_stock_news\<close>\<close>

text \<open>
  A search result is a dictionary of strings. The search client is a black box: opening
  it (\<open>DDGS()\<close>) may raise, and \<open>ddgs.text(query, max_results, region)\<close> either raises
  (\<open>Inl msg\<close>) or gives a list of results.
\<close>

type_synonym search_result = "string \<rightharpoonup> string"

type_synonym ddgs = "string \<Rightarrow> nat \<Rightarrow> string \<Rightarrow> string + search_result list"

record news_item =
  title :: string
  body :: string
  url :: string
  source :: string

text \<open>
  Lines 141-146. Only the \<open>source\<close> entry can raise: \<open>split('/')[2]\<close> is out of range
  when the non-empty \<open>href\<close> has fewer than two slashes.
\<close>

definition make_news_item :: "search_result \<Rightarrow> py_error + news_item" where
  "make_news_item result =
     (case (if (case result ''href'' of None \<Rightarrow> False | Some h \<Rightarrow> h \<noteq> [])
            then py_index (py_split (dict_get result ''href'' []) ''/'') 2
            else Some ''Unknown'') of
        None \<Rightarrow> Inl IndexError
      | Some src \<Rightarrow>
          Inr \<lparr>title = dict_get result ''title'' [], body = dict_get result ''body'' [],
               url = dict_get result ''href'' [], source = src\<rparr>)"

text \<open>
  Lines 140-147: the loop over the results of one query. An exception leaves the loop;
  the items appended before it stay in \<open>all_news\<close>.
\<close>

fun collect_results :: "search_result list \<Rightarrow> news_item list \<Rightarrow> py_error option \<times> news_item list" where
  "collect_results [] all_news = (None, all_news)"
| "collect_results (result # results) all_news =
     (case make_news_item result of
        Inl e \<Rightarrow> (Some e, all_news)
      | Inr news_item \<Rightarrow> collect_results results (all_news @ [news_item]))"

text \<open>Lines 127-131.\<close>

definition news_queries :: "string \<Rightarrow> string \<Rightarrow> string list" where
  "news_queries company_name symbol =
     [company_name @ '' stock news'', symbol @ '' earnings news'',
      company_name @ '' financial news'']"

text \<open>
  Lines 136-153: the loop over the queries. A query that raises, in the search or
  while its results are read, is skipped (\<open>continue\<close>). \<open>requests\<close> records each call
  of \<open>ddgs.text\<close> with its \<open>max_results\<close>.
\<close>

fun run_queries ::
  "ddgs \<Rightarrow> string list \<Rightarrow> news_item list \<Rightarrow> (string \<times> nat) list
     \<Rightarrow> news_item list \<times> (string \<times> nat) list" where
  "run_queries ddgs [] all_news requests = (all_news, requests)"
| "run_queries ddgs (query # queries) all_news requests =
     (case ddgs query 3 ''us-en'' of
        Inl msg \<Rightarrow> run_queries ddgs queries all_news (requests @ [(query, 3)])
      | Inr results \<Rightarrow>
          run_queries ddgs queries (snd (collect_results results all_news))
            (requests @ [(query, 3)]))"

text \<open>\<open>str(i)\<close> for the item number.\<close>

fun str_of_nat :: "nat \<Rightarrow> string" where
  "str_of_nat n =
     (if n < 10 then [''0123456789'' ! n]
      else str_of_nat (n div 10) @ [''0123456789'' ! (n mod 10)])"

text \<open>Lines 161-167: one rendered item.\<close>

definition format_news_item :: "nat \<Rightarrow> news_item \<Rightarrow> string" where
  "format_news_item i news =
     ''\<newline>'' @ str_of_nat i @ ''. '' @ title news @
     ''\<newline>   Source: '' @ source news @
     ''\<newline>   Summary: '' @ take 200 (body news) @ ''...'' @
     ''\<newline>   URL: '' @ url news @
     ''\<newline>   \<newline>''"

text \<open>Line 160: the items that are rendered, numbered from 1.\<close>

definition rendered_items :: "news_item list \<Rightarrow> (nat \<times> news_item) list" where
  "rendered_items all_news = enumerate 1 (take 8 all_news)"

text \<open>Lines 155-170.\<close>

definition format_news :: "string \<Rightarrow> string \<Rightarrow> news_item list \<Rightarrow> string" where
  "format_news company_name symbol all_news =
     (if all_news \<noteq> []
      then ''\<newline>RECENT NEWS FOR '' @ company_name @ '' ('' @ symbol @ '')'' @
           ''\<newline>==========================================\<newline>'' @
           concat (map (\<lambda>(i, news). format_news_item i news) (rendered_items all_news))
      else ''No recent news found for '' @ company_name @ '' ('' @ symbol @ '')'')"

text \<open>
  Lines 122-173. \<open>aggregate_news\<close> is the state after the loop: \<open>all_news\<close> and the
  requests made. \<open>search_stock_news\<close> always returns a string.
\<close>

definition aggregate_news :: "ddgs \<Rightarrow> string \<Rightarrow> string \<Rightarrow> news_item list \<times> (string \<times> nat) list" where
  "aggregate_news ddgs company_name symbol =
     run_queries ddgs (news_queries company_name symbol) [] []"

definition search_stock_news :: "string + ddgs \<Rightarrow> string \<Rightarrow> string \<Rightarrow> string" where
  "search_stock_news ddgs_open company_name symbol =
     (case ddgs_open of
        Inl msg \<Rightarrow> ''Error searching for news: '' @ msg
      | Inr ddgs \<Rightarrow>
          format_news company_name symbol (fst (aggregate_news ddgs company_name symbol)))"

section \<open>Single-shot analysis: \<open>analyze_stock_simple\<close>\<close>

text \<open>
  Lines 203-208. The test looks for \<open>Company:\<close>, the split is at \<open>Company: \<close> with a
  space; an index out of range falls back to the ticker.
\<close>

definition extract_company_name :: "string \<Rightarrow> string \<Rightarrow> string" where
  "extract_company_name stock_data stock_symbol =
     (if sublist ''Company:'' stock_data
      then (case py_index (py_split stock_data ''Company: '') 1 of
              None \<Rightarrow> stock_symbol
            | Some rest \<Rightarrow>
               (case py_index (py_split rest ''\<newline>'') 0 of
                  None \<Rightarrow> stock_symbol
                | Some name \<Rightarrow> name))
      else stock_symbol)"

text \<open>Lines 213-249: the prompt.\<close>

definition analysis_prompt :: "string \<Rightarrow> string \<Rightarrow> string \<Rightarrow> string" where
  "analysis_prompt stock_symbol stock_data news_data =
     ''\<newline>'' @
     ''You are a senior financial analyst. Please provide a comprehensive stock analysis for '' @
     stock_symbol @
     '' based on the following data:\<newline>'' @
     ''\<newline>'' @
     ''STOCK DATA:\<newline>'' @
     stock_data @
     ''\<newline>'' @
     ''\<newline>'' @
     ''NEWS DATA:\<newline>'' @
     news_data @
     ''\<newline>'' @
     ''\<newline>'' @
     ''Please provide:\<newline>'' @
     ''\<newline>'' @
     ''1. **EXECUTIVE SUMMARY** (2-3 sentences about the company and current situation)\<newline>'' @
     ''\<newline>'' @
     ''2. **FINANCIAL HEALTH ASSESSMENT** \<newline>'' @
     ''   - Analyze key metrics (P/E, debt-to-equity, ROE, profit margins, etc.)\<newline>'' @
     ''   - Compare to industry standards where possible\<newline>'' @
     ''   - Rate financial health: Excellent/Good/Fair/Poor\<newline>'' @
     ''\<newline>'' @
     ''3. **VALUATION ANALYSIS**\<newline>'' @
     ''   - Is the stock overvalued, fairly valued, or undervalued?\<newline>'' @
     ''   - Key valuation metrics analysis\<newline>'' @
     ''   \<newline>'' @
     ''4. **RECENT NEWS IMPACT**\<newline>'' @
     ''   - How recent news affects the stock outlook\<newline>'' @
     ''   - Market sentiment analysis\<newline>'' @
     ''\<newline>'' @
     ''5. **INVESTMENT RECOMMENDATION**\<newline>'' @
     ''   - Clear decision: **BUY** / **HOLD** / **SELL**\<newline>'' @
     ''   - Confidence level: High/Medium/Low\<newline>'' @
     ''   - 3-5 key reasons supporting your recommendation\<newline>'' @
     ''   - Main risks to consider\<newline>'' @
     ''   - Suggested time horizon (short/medium/long term)\<newline>'' @
     ''\<newline>'' @
     ''6. **BOTTOM LINE** (1-2 sentences in plain English for beginner investors)\<newline>'' @
     ''\<newline>'' @
     ''Make your analysis clear, actionable, and accessible to both beginners and experienced investors. Be honest about uncertainties and risks.\<newline>''"

text \<open>
  The language model is a black box: constructing the client may raise, and
  \<open>invoke\<close> either raises or gives the text of the response.
  Lines 175-264: the result is the returned string and the list of the prompts the
  model was invoked with.
\<close>

type_synonym llm = "string \<Rightarrow> string + string"

definition analyze_stock_simple ::
  "'n num_ops \<Rightarrow> string + llm \<Rightarrow> 'n market \<Rightarrow> string + ddgs \<Rightarrow> string \<Rightarrow> string \<times> string list" where
  "analyze_stock_simple ops llm_init yf ddgs_open stock_symbol =
     (case llm_init of
        Inl msg \<Rightarrow> (''Error during analysis: '' @ msg, [])
      | Inr gemini_llm \<Rightarrow>
         (case fst (get_stock_data ops yf stock_symbol) of
            Inl e \<Rightarrow> (''Error during analysis: '' @ str_of_error e, [])
          | Inr stock_data \<Rightarrow>
             (let company_name = extract_company_name stock_data stock_symbol;
                  news_data = search_stock_news ddgs_open company_name stock_symbol;
                  prompt = analysis_prompt stock_symbol stock_data news_data
              in case gemini_llm prompt of
                   Inl msg \<Rightarrow> (''Error during analysis: '' @ msg, [prompt])
                 | Inr content \<Rightarrow> (content, [prompt]))))"

section \<open>Multi-agent pipeline (Flow A): \<open>FinancialCompanionCrew\<close>\<close>

text \<open>
  Lines 53-124: the five agents, by key and role, in the order in which they are added
  to the dictionary. Lines 126-257: the five tasks, in list order, each given by the key
  of its agent. The prompt texts (goal, backstory, description, expected output) are
  left out.
\<close>

definition agents :: "(string \<times> string) list" where
  "agents =
     [(''data_processor'', ''Transaction Data Validator and Processor''),
      (''risk_guardian'', ''Fraud Detection and Risk Assessment Analyst''),
      (''health_advisor'', ''Spending Pattern Analyst and Financial Wellness Expert''),
      (''product_matchmaker'', ''Financial Product Recommendation Specialist''),
      (''report_synthesizer'', ''Financial Insights Report Generator'')]"







text \<open>
  Occurrences in order: \<open>after_first h s\<close> is the text after the leftmost occurrence of
  \<open>h\<close> in \<open>s\<close>, and \<open>contains_in_order hs s\<close> holds when the strings \<open>hs\<close> occur in
  \<open>s\<close> one after the other, without overlap.
\<close>

fun after_first :: "string \<Rightarrow> string \<Rightarrow> string option" where
  "after_first h [] = (if h = [] then Some [] else None)"
| "after_first h (c # cs) =
     (if prefix h (c # cs) then Some (drop (length h) (c # cs)) else after_first h cs)"


text \<open>
  Auxiliary notions for stating properties: the text a template piece contributes, the
  keys a template looks up, and the field of a snapshot returned by \<open>try_fetch_stock\<close>.
\<close>

fun render_seg :: "'n num_ops \<Rightarrow> 'n pydict \<Rightarrow> seg \<Rightarrow> string" where
  "render_seg ops d (Lit s) = s"
| "render_seg ops d (Field k) = (case d k of None \<Rightarrow> [] | Some v \<Rightarrow> str_of_val ops v)"

fun fields_of :: "seg list \<Rightarrow> string list" where
  "fields_of [] = []"
| "fields_of (Lit s # segs) = fields_of segs"
| "fields_of (Field k # segs) = k # fields_of segs"

definition snapshot_field :: "string + 'n pydict \<Rightarrow> string \<Rightarrow> 'n pyval option" where
  "snapshot_field result k = (case result of Inl message \<Rightarrow> None | Inr data \<Rightarrow> data k)"

text \<open>The items one query contributes to \<open>all_news\<close>: none when the search raises.\<close>

definition query_items :: "ddgs \<Rightarrow> string \<Rightarrow> news_item list" where
  "query_items ddgs query =
     (case ddgs query 3 ''us-en'' of Inl msg \<Rightarrow> [] | Inr results \<Rightarrow> snd (collect_results results []))"

section \<open>Properties of quote retrieval\<close>

subsection \<open>Formatting\<close>

lemma format_segs_Inr:
  "format_segs ops segs d = Inr s \<Longrightarrow> s = concat (map (render_seg ops d) segs)"
proof (induction segs arbitrary: s)
  case Nil
  then show ?case by simp
next
  case (Cons x segs)
  show ?case
  proof (cases x)
    case (Lit l)
    with Cons show ?thesis by (auto split: sum.splits)
  next
    case (Field k)
    with Cons show ?thesis by (auto split: sum.splits option.splits)
  qed
qed

lemma format_segs_total:
  "(\<forall>k \<in> set (fields_of segs). d k \<noteq> None) \<Longrightarrow>
   format_segs ops segs d = Inr (concat (map (render_seg ops d) segs))"
  by (induction segs rule: fields_of.induct) auto

lemma format_stock_template_prefix:
  assumes "format_segs ops stock_template data = Inr s" and "data ''symbol'' = Some v"
  shows "prefix (''\<newline>STOCK DATA FOR '' @ str_of_val ops v @ ''\<newline>'') s"
proof -
  have "s = concat (map (render_seg ops data) stock_template)"
    using assms(1) by (rule format_segs_Inr)
  then show ?thesis using assms(2) by (simp add: stock_template_def)
qed

subsection \<open>The snapshot built by \<open>try_fetch_stock\<close>\<close>

lemma try_fetch_stock_lookups:
  "snd (try_fetch_stock ops yf t lookups) = lookups @ [t]"
  by (simp add: try_fetch_stock_def split: sum.splits)

lemma try_fetch_stock_fails:
  "isl (fst (try_fetch_stock ops yf t lookups)) = isl (yf t)"
  by (simp add: try_fetch_stock_def Let_def split: sum.splits)

lemma try_fetch_stock_Inr:
  "yf t = Inr td \<Longrightarrow> fst (try_fetch_stock ops yf t lookups) =
     Inr (if hist_close td \<noteq> []
          then add_returns ops (last (hist_close td)) (hist_close td)
                 (base_stock_data t (info td) (PyNum (last (hist_close td))))
          else base_stock_data t (info td) (dict_get (info td) ''currentPrice'' NA))"
  by (simp add: try_fetch_stock_def Let_def)

lemma base_stock_data_symbol:
  "base_stock_data t i cp ''symbol'' = Some (PyStr t)"
  by (simp add: base_stock_data_def)


lemma add_returns_other:
  "k \<notin> {''1_month_return'', ''3_month_return'', ''1_year_return''} \<Longrightarrow>
   add_returns ops cp closes d k = d k"
  by (simp add: add_returns_def Let_def split: option.splits)

lemma try_fetch_stock_symbol:
  assumes "yf t = Inr td"
  shows "snapshot_field (fst (try_fetch_stock ops yf t lookups)) ''symbol'' = Some (PyStr t)"
  using assms
  by (simp add: try_fetch_stock_Inr snapshot_field_def add_returns_other base_stock_data_symbol)



lemma add_returns_fields:
  "add_returns ops cp closes d ''1_month_return'' = Some
     (case (trailing_return ops cp closes 30, trailing_return ops cp closes 90,
            trailing_return ops cp closes 252) of
        (Some r1, Some r3, Some r12) \<Rightarrow> PyStr r1 | _ \<Rightarrow> NA)"
  "add_returns ops cp closes d ''3_month_return'' = Some
     (case (trailing_return ops cp closes 30, trailing_return ops cp closes 90,
            trailing_return ops cp closes 252) of
        (Some r1, Some r3, Some r12) \<Rightarrow> PyStr r3 | _ \<Rightarrow> NA)"
  "add_returns ops cp closes d ''1_year_return'' = Some
     (case (trailing_return ops cp closes 30, trailing_return ops cp closes 90,
            trailing_return ops cp closes 252) of
        (Some r1, Some r3, Some r12) \<Rightarrow> PyStr r12 | _ \<Rightarrow> NA)"
  by (simp_all add: add_returns_def Let_def split: option.splits)

lemma format_empty_history:
  "format_segs ops stock_template (base_stock_data t i cp) = Inl (KeyError ''1_month_return'')"
  by (simp add: stock_template_def base_stock_data_def)

lemma get_stock_data_empty_history:
  assumes "yf symbol = Inr td" and "hist_close td = []"
  shows "fst (get_stock_data ops yf symbol) = Inl (KeyError ''1_month_return'')"
proof -
  have "fst (try_fetch_stock ops yf symbol []) =
          Inr (base_stock_data symbol (info td) (dict_get (info td) ''currentPrice'' NA))"
    using assms by (simp add: try_fetch_stock_Inr)
  then show ?thesis
    by (simp add: get_stock_data_def split_beta format_empty_history)
qed

lemma add_returns_complete:
  "\<forall>k \<in> set (fields_of stock_template).
      add_returns ops cp closes (base_stock_data t i cp') k \<noteq> None"
  by (simp add: stock_template_def add_returns_other add_returns_fields base_stock_data_def)

lemma get_stock_data_block:
  assumes "yf t = Inr td" and "hist_close td \<noteq> []"
    and "fst (try_fetch_stock ops yf t lookups) = Inr data"
  shows "\<exists>s. format_segs ops stock_template data = Inr s"
proof -
  have "data = add_returns ops (last (hist_close td)) (hist_close td)
                 (base_stock_data t (info td) (PyNum (last (hist_close td))))"
    using assms by (simp add: try_fetch_stock_Inr)
  then have "\<forall>k \<in> set (fields_of stock_template). data k \<noteq> None"
    by (simp add: add_returns_complete)
  then show ?thesis by (simp add: format_segs_total)
qed

subsection \<open>Regional fallback\<close>

text \<open>
  Claim C1. The lookups made by \<open>get_stock_data\<close> are the primary lookup alone, or the
  primary lookup followed by exactly one lookup of the ticker with \<open>.NS\<close> appended; the
  second happens exactly when the primary lookup fails and the ticker does not end in
  \<open>.NS\<close>. When that retry succeeds, the snapshot carries the suffixed symbol, the result
  is the formatted snapshot, and every returned block starts with the suffixed symbol.
\<close>

theorem get_stock_data_retry:
  fixes ops :: "'n num_ops" and yf :: "'n market"
  shows "snd (get_stock_data ops yf symbol) =
           (if isl (yf symbol) \<and> \<not> suffix ''.NS'' symbol then [symbol, symbol @ ''.NS'']
            else [symbol])
       \<and> (isl (yf symbol) \<and> \<not> suffix ''.NS'' symbol \<and> yf (symbol @ ''.NS'') = Inr td \<longrightarrow>
            (\<exists>data. fst (try_fetch_stock ops yf (symbol @ ''.NS'') [symbol]) = Inr data
               \<and> data ''symbol'' = Some (PyStr (symbol @ ''.NS''))
               \<and> fst (get_stock_data ops yf symbol) = format_segs ops stock_template data
               \<and> (\<forall>s. fst (get_stock_data ops yf symbol) = Inr s \<longrightarrow>
                     prefix (''\<newline>STOCK DATA FOR '' @ symbol @ ''.NS\<newline>'') s)))"
proof (intro conjI impI)
  show "snd (get_stock_data ops yf symbol) =
           (if isl (yf symbol) \<and> \<not> suffix ''.NS'' symbol then [symbol, symbol @ ''.NS'']
            else [symbol])"
    by (simp add: get_stock_data_def split_beta try_fetch_stock_fails try_fetch_stock_lookups)
next
  assume a: "isl (yf symbol) \<and> \<not> suffix ''.NS'' symbol \<and> yf (symbol @ ''.NS'') = Inr td"
  let ?r = "try_fetch_stock ops yf (symbol @ ''.NS'') [symbol]"
  from a obtain data where d: "fst ?r = Inr data"
    by (simp add: try_fetch_stock_Inr)
  have sym: "data ''symbol'' = Some (PyStr (symbol @ ''.NS''))"
    using try_fetch_stock_symbol [of yf "symbol @ ''.NS''" td ops "[symbol]"] a d
    by (simp add: snapshot_field_def)
  have g: "fst (get_stock_data ops yf symbol) = format_segs ops stock_template data"
    using a d by (simp add: get_stock_data_def split_beta try_fetch_stock_fails try_fetch_stock_lookups)
  have "\<forall>s. fst (get_stock_data ops yf symbol) = Inr s \<longrightarrow>
          prefix (''\<newline>STOCK DATA FOR '' @ symbol @ ''.NS\<newline>'') s"
  proof (intro allI impI)
    fix s assume "fst (get_stock_data ops yf symbol) = Inr s"
    with g have "format_segs ops stock_template data = Inr s" by simp
    from format_stock_template_prefix [OF this sym]
    show "prefix (''\<newline>STOCK DATA FOR '' @ symbol @ ''.NS\<newline>'') s" by simp
  qed
  with d sym g show "\<exists>data. fst ?r = Inr data
               \<and> data ''symbol'' = Some (PyStr (symbol @ ''.NS''))
               \<and> fst (get_stock_data ops yf symbol) = format_segs ops stock_template data
               \<and> (\<forall>s. fst (get_stock_data ops yf symbol) = Inr s \<longrightarrow>
                     prefix (''\<newline>STOCK DATA FOR '' @ symbol @ ''.NS\<newline>'') s)"
    by blast
qed

theorem get_stock_data_retry_witness:
  "let ops = \<lparr>num_str = (\<lambda>n::nat. ''10''), pct_return = (\<lambda>a b. Some ''1.25'')\<rparr>;
       yf = (\<lambda>t. if t = ''TCS.NS''
                  then Inr \<lparr>info = [''longName'' \<mapsto> PyStr ''Tata Consultancy Services''],
                            hist_close = replicate 45 (10::nat)\<rparr>
                  else Inl ''No data found'')
   in isl (yf ''TCS'') \<and> \<not> suffix ''.NS'' ''TCS'' \<and> \<not> isl (yf ''TCS.NS'')
    \<and> snd (get_stock_data ops yf ''TCS'') = [''TCS'', ''TCS.NS'']
    \<and> (\<exists>s. fst (get_stock_data ops yf ''TCS'') = Inr s
           \<and> prefix ''\<newline>STOCK DATA FOR TCS.NS\<newline>'' s)"
proof -
  let ?ops = "\<lparr>num_str = (\<lambda>n::nat. ''10''), pct_return = (\<lambda>a b. Some ''1.25'')\<rparr>"
  let ?td = "\<lparr>info = [''longName'' \<mapsto> PyStr ''Tata Consultancy Services''],
                            hist_close = replicate 45 (10::nat)\<rparr>"
  let ?yf = "\<lambda>t. if t = ''TCS.NS'' then Inr ?td else Inl ''No data found''"
  have ns: "\<not> suffix ''.NS'' ''TCS''" by (simp add: suffix_def)
  have y: "isl (?yf ''TCS'')" "?yf ''TCS.NS'' = Inr ?td" by simp_all
  note th = get_stock_data_retry [of ?ops ?yf "''TCS''" ?td]
  from th ns y obtain data where
    d: "fst (try_fetch_stock ?ops ?yf ''TCS.NS'' [''TCS'']) = Inr data"
    and g: "fst (get_stock_data ?ops ?yf ''TCS'') = format_segs ?ops stock_template data"
    and p: "\<forall>s. fst (get_stock_data ?ops ?yf ''TCS'') = Inr s \<longrightarrow>
               prefix ''\<newline>STOCK DATA FOR TCS.NS\<newline>'' s"
    by auto
  from get_stock_data_block [OF y(2) _ d] obtain s
    where "format_segs ?ops stock_template data = Inr s" by auto
  with g p have "fst (get_stock_data ?ops ?yf ''TCS'') = Inr s
           \<and> prefix ''\<newline>STOCK DATA FOR TCS.NS\<newline>'' s" by simp
  moreover have "snd (get_stock_data ?ops ?yf ''TCS'') = [''TCS'', ''TCS.NS'']"
    using th ns y by simp
  ultimately show ?thesis using ns y by (simp add: Let_def)
qed

subsection \<open>Missing history\<close>

text \<open>
  Claim C2. The claim says that \<open>get_stock_data\<close> never raises and that a missing
  history degrades to \<open>N/A\<close>. When the lookup succeeds with an empty history, lines
  61-69 are skipped, the three return fields are never set, and the template's lookup of
  \<open>1_month_return\<close> in line 110 raises \<open>KeyError\<close> outside every \<open>try\<close>.
\<close>

theorem get_stock_data_raises_on_empty_history:
  "fst (get_stock_data \<lparr>num_str = (\<lambda>n::nat. ''10''), pct_return = (\<lambda>a b. Some ''0.00'')\<rparr>
         (\<lambda>t. Inr \<lparr>info = [''longName'' \<mapsto> PyStr ''Xyz Corp'', ''currentPrice'' \<mapsto> PyNum 10],
                       hist_close = []\<rparr>)
         ''XYZ'')
   = Inl (KeyError ''1_month_return'')"
  by (rule get_stock_data_empty_history
        [where td = "\<lparr>info = [''longName'' \<mapsto> PyStr ''Xyz Corp'', ''currentPrice'' \<mapsto> PyNum 10],
                      hist_close = []\<rparr>"]) simp_all

subsection \<open>Trailing returns\<close>




section \<open>Properties of news retrieval\<close>

lemma collect_results_acc:
  "snd (collect_results rs acc) = acc @ snd (collect_results rs [])"
proof (induction rs arbitrary: acc)
  case Nil
  then show ?case by simp
next
  case (Cons r rs)
  show ?case
  proof (cases "make_news_item r")
    case (Inl e)
    then show ?thesis by simp
  next
    case (Inr item)
    then show ?thesis
      using Cons.IH [of "acc @ [item]"] Cons.IH [of "[item]"] by simp
  qed
qed


lemma run_queries_news:
  "fst (run_queries ddgs qs acc reqs) = acc @ concat (map (query_items ddgs) qs)"
proof (induction qs arbitrary: acc reqs)
  case Nil
  then show ?case by simp
next
  case (Cons q qs)
  show ?case
  proof (cases "ddgs q 3 ''us-en''")
    case (Inl msg)
    then show ?thesis using Cons.IH by (simp add: query_items_def)
  next
    case (Inr rs)
    then show ?thesis
      using Cons.IH collect_results_acc [of rs acc] by (simp add: query_items_def)
  qed
qed




lemma rendered_items_news: "map snd (rendered_items all_news) = take 8 all_news"
  by (simp add: rendered_items_def)

lemma aggregate_news_items:
  "fst (aggregate_news ddgs c s) = concat (map (query_items ddgs) (news_queries c s))"
  by (simp add: aggregate_news_def run_queries_news)




text \<open>
  Claim C5. When one of the three queries raises and the other two return results, the
  aggregate is exactly what was collected from the other two, in query order.
\<close>

theorem failing_query_is_skipped:
  assumes "i < 3" and "isl (ddgs (news_queries company_name symbol ! i) 3 ''us-en'')"
    and "\<forall>j<3. j \<noteq> i \<longrightarrow> ddgs (news_queries company_name symbol ! j) 3 ''us-en'' = Inr (rs j)"
  shows "fst (aggregate_news ddgs company_name symbol) =
           concat (map (\<lambda>j. snd (collect_results (rs j) [])) (filter (\<lambda>j. j \<noteq> i) [0, 1, 2]))"
proof -
  have q: "query_items ddgs (news_queries company_name symbol ! j) =
             (if j = i then [] else snd (collect_results (rs j) []))" if "j < 3" for j
    using that assms(2,3) by (auto simp: query_items_def split: sum.splits)
  have "news_queries company_name symbol =
          map (\<lambda>j. news_queries company_name symbol ! j) [0, 1, 2]"
    by (simp add: news_queries_def)
  then have "fst (aggregate_news ddgs company_name symbol) =
          concat (map (\<lambda>j. query_items ddgs (news_queries company_name symbol ! j)) [0, 1, 2])"
    using aggregate_news_items [of ddgs company_name symbol]
    by (simp add: news_queries_def)
  also have "\<dots> = concat (map (\<lambda>j. if j = i then [] else snd (collect_results (rs j) [])) [0, 1, 2])"
    using q by simp
  also have "\<dots> = concat (map (\<lambda>j. snd (collect_results (rs j) [])) (filter (\<lambda>j. j \<noteq> i) [0, 1, 2]))"
    by simp
  finally show ?thesis .
qed

theorem failing_query_is_skipped_witness:
  "let r = [''title'' \<mapsto> ''Quarterly results'', ''href'' \<mapsto> ''https://news.example.com/tcs''];
       ddgs = (\<lambda>q n region. if q = ''TCS earnings news'' then Inl ''timeout'' else Inr [r])
   in (1::nat) < 3
    \<and> isl (ddgs (news_queries ''Tata'' ''TCS'' ! 1) 3 ''us-en'')
    \<and> (\<forall>j<3. j \<noteq> 1 \<longrightarrow> ddgs (news_queries ''Tata'' ''TCS'' ! j) 3 ''us-en'' = Inr [r])
    \<and> fst (aggregate_news ddgs ''Tata'' ''TCS'') =
        snd (collect_results [r] []) @ snd (collect_results [r] [])"
proof -
  let ?r = "[''title'' \<mapsto> ''Quarterly results'', ''href'' \<mapsto> ''https://news.example.com/tcs'']"
  let ?ddgs = "\<lambda>(q::string) (n::nat) (region::string).
                 if q = ''TCS earnings news'' then Inl ''timeout'' else Inr [?r] :: string + search_result list"
  have f: "isl (?ddgs (news_queries ''Tata'' ''TCS'' ! 1) 3 ''us-en'')"
    by (simp add: news_queries_def)
  have o: "\<forall>j<3. j \<noteq> 1 \<longrightarrow> ?ddgs (news_queries ''Tata'' ''TCS'' ! j) 3 ''us-en'' = Inr [?r]"
    by (simp add: news_queries_def numeral_3_eq_3 less_Suc_eq)
  have "fst (aggregate_news ?ddgs ''Tata'' ''TCS'') =
        snd (collect_results [?r] []) @ snd (collect_results [?r] [])"
    using failing_query_is_skipped [of 1 ?ddgs "''Tata''" "''TCS''" "\<lambda>j. [?r]", OF _ f o]
    by simp
  with f o show ?thesis by (simp add: Let_def)
qed

text \<open>
  Claim C7. When nothing was collected, the result is the marker
  \<open>No recent news found for <company> (<symbol>)\<close>, which differs from every string
  \<open>Error searching for news: <message>\<close> returned when the search client fails.
\<close>

theorem no_news_marker:
  assumes "fst (aggregate_news ddgs company_name symbol) = []"
  shows "search_stock_news (Inr ddgs) company_name symbol =
           ''No recent news found for '' @ company_name @ '' ('' @ symbol @ '')''
       \<and> (\<forall>msg. search_stock_news (Inr ddgs) company_name symbol \<noteq>
                  search_stock_news (Inl msg) company_name symbol)
       \<and> (\<forall>msg. search_stock_news (Inl msg) company_name symbol =
                  ''Error searching for news: '' @ msg)"
  using assms by (simp add: search_stock_news_def format_news_def)

theorem no_news_marker_witness:
  "fst (aggregate_news (\<lambda>q n region. Inr []) ''Tata'' ''TCS'') = []
   \<and> search_stock_news (Inr (\<lambda>q n region. Inr [])) ''Tata'' ''TCS'' =
         ''No recent news found for Tata (TCS)''
   \<and> search_stock_news (Inl ''rate limit'') ''Tata'' ''TCS'' =
         ''Error searching for news: rate limit''"
proof -
  have e: "fst (aggregate_news (\<lambda>q n region. Inr []) ''Tata'' ''TCS'') = []"
    by (simp add: aggregate_news_items query_items_def news_queries_def)
  from no_news_marker [OF e] e show ?thesis by simp
qed

subsection \<open>The source label\<close>












section \<open>Layout of the formatted block\<close>









section \<open>Properties of the single-shot analysis\<close>

lemma split_from_nonempty: "split_from sep acc s \<noteq> []"
  by (induction sep acc s rule: split_from.induct) auto

lemma after_first_None: "after_first sep s = None \<longleftrightarrow> \<not> sublist sep s"
  by (induction s) (auto simp: sublist_Cons_right)

lemma split_from_tl:
  "sep \<noteq> [] \<Longrightarrow> after_first sep s = Some r \<Longrightarrow> tl (split_from sep acc s) = split_from sep [] r"
proof (induction sep acc s rule: split_from.induct)
  case (1 sep acc)
  then show ?case by simp
next
  case (2 sep acc c cs)
  show ?case
  proof (cases "prefix sep (c # cs)")
    case True
    with 2 have "r = drop (length sep - 1) cs"
      by (cases sep) auto
    with True 2 show ?thesis by simp
  next
    case False
    with 2 show ?thesis by simp
  qed
qed

lemma split_from_no_sep:
  "\<not> sublist sep s \<Longrightarrow> split_from sep acc s = [rev acc @ s]"
proof (induction sep acc s rule: split_from.induct)
  case (1 sep acc)
  then show ?case by simp
next
  case (2 sep acc c cs)
  then have "\<not> prefix sep (c # cs)" "\<not> sublist sep cs"
    by (auto simp: sublist_Cons_right)
  with 2 show ?case by simp
qed

lemma split_from_char_head:
  "hd (split_from [x] acc s) = rev acc @ takeWhile (\<lambda>c. c \<noteq> x) s"
  by (induction s arbitrary: acc) auto

lemma extract_company_name_eq:
  "extract_company_name stock_data stock_symbol =
     (case after_first ''Company: '' stock_data of
        None \<Rightarrow> stock_symbol
      | Some rest \<Rightarrow> takeWhile (\<lambda>c. c \<noteq> CHR ''\<newline>'') (hd (py_split rest ''Company: '')))"
proof (cases "after_first ''Company: '' stock_data")
  case None
  then have "\<not> sublist ''Company: '' stock_data" by (simp add: after_first_None)
  then have "py_split stock_data ''Company: '' = [stock_data]"
    by (simp add: py_split_def split_from_no_sep)
  with None show ?thesis by (simp add: extract_company_name_def py_index_def)
next
  case (Some rest)
  then have sub: "sublist ''Company: '' stock_data"
    using after_first_None [of "''Company: ''" stock_data] by simp
  have "sublist ''Company:'' ''Company: ''"
    by (rule prefix_imp_sublist) (simp add: prefix_def)
  from this sub have s1: "sublist ''Company:'' stock_data"
    by (rule sublist_order.order.trans)
  let ?xs = "py_split stock_data ''Company: ''"
  have tl: "tl ?xs = py_split rest ''Company: ''"
    using Some by (simp add: py_split_def split_from_tl)
  have ne: "py_split rest ''Company: '' \<noteq> []" "?xs \<noteq> []"
    by (simp_all add: py_split_def split_from_nonempty)
  with tl have len: "2 \<le> length ?xs" by (cases ?xs) (auto simp: Suc_le_eq)
  have "?xs ! 1 = hd (tl ?xs)"
    using ne tl by (cases ?xs; cases "tl ?xs") (auto simp: hd_conv_nth)
  with tl have x1: "?xs ! 1 = hd (py_split rest ''Company: '')" by simp
  have i1: "py_index ?xs 1 = Some (hd (py_split rest ''Company: ''))"
    using len x1 by (simp add: py_index_def)
  let ?ys = "py_split (hd (py_split rest ''Company: '')) ''\<newline>''"
  have "?ys \<noteq> []" by (simp add: py_split_def split_from_nonempty)
  then have i0: "py_index ?ys 0 = Some (hd ?ys)"
    by (simp add: py_index_def hd_conv_nth)
  have "hd ?ys = takeWhile (\<lambda>c. c \<noteq> CHR ''\<newline>'') (hd (py_split rest ''Company: ''))"
    by (simp add: py_split_def split_from_char_head)
  with Some s1 i1 i0 show ?thesis by (simp add: extract_company_name_def)
qed

lemma analysis_prompt_contains:
  "sublist stock_data (analysis_prompt stock_symbol stock_data news_data)"
proof -
  have "\<exists>pre post. analysis_prompt stock_symbol stock_data news_data = pre @ stock_data @ post"
    unfolding analysis_prompt_def
    by (rule exI [of _ "''\<newline>You are a senior financial analyst. Please provide a comprehensive stock analysis for '' @ stock_symbol @ '' based on the following data:\<newline>\<newline>STOCK DATA:\<newline>''"], rule exI) simp
  then show ?thesis by (auto simp: sublist_def)
qed

text \<open>
  Claim C9. Once the model client exists and \<open>get_stock_data\<close> has returned a string (an
  error description in particular), the analysis goes on: the company name is the text
  after the first \<open>Company: \<close> up to the end of the line when that marker occurs, and
  the ticker otherwise; the returned string stands verbatim in the prompt; and the model
  is invoked exactly once, with that prompt.
\<close>

theorem analysis_continues_on_fetch_error:
  assumes "llm_init = Inr gemini_llm"
    and "fst (get_stock_data ops yf stock_symbol) = Inr stock_data"
  shows "let company_name =
               (case after_first ''Company: '' stock_data of
                  None \<Rightarrow> stock_symbol
                | Some rest \<Rightarrow>
                    takeWhile (\<lambda>c. c \<noteq> CHR ''\<newline>'') (hd (py_split rest ''Company: '')));
             news_data = search_stock_news ddgs_open company_name stock_symbol;
             prompt = analysis_prompt stock_symbol stock_data news_data;
             outcome = analyze_stock_simple ops llm_init yf ddgs_open stock_symbol
         in snd outcome = [prompt]
          \<and> sublist stock_data prompt
          \<and> fst outcome = (case gemini_llm prompt of
                              Inl msg \<Rightarrow> ''Error during analysis: '' @ msg
                            | Inr content \<Rightarrow> content)
          \<and> (\<not> sublist ''Company: '' stock_data \<longrightarrow> company_name = stock_symbol)"
proof -
  have "\<not> sublist ''Company: '' stock_data \<Longrightarrow> after_first ''Company: '' stock_data = None"
    by (simp add: after_first_None)
  with assms show ?thesis
    by (auto simp: Let_def analyze_stock_simple_def extract_company_name_eq
        analysis_prompt_contains split: sum.splits)
qed

theorem analysis_continues_on_fetch_error_witness:
  "let ops = \<lparr>num_str = str_of_nat, pct_return = (\<lambda>a b. Some ''1.25'')\<rparr>;
       llm = (\<lambda>prompt. Inr ''HOLD'');
       yf = (\<lambda>t. Inl ''No data found'');
       ddgs_open = Inr (\<lambda>q n region. Inr []);
       outcome = analyze_stock_simple ops (Inr llm) yf ddgs_open ''TCS''
   in fst (get_stock_data ops yf ''TCS'') = Inr ''Error fetching TCS.NS: No data found''
    \<and> \<not> sublist ''Company: '' ''Error fetching TCS.NS: No data found''
    \<and> snd outcome = [analysis_prompt ''TCS'' ''Error fetching TCS.NS: No data found''
                         (search_stock_news ddgs_open ''TCS'' ''TCS'')]
    \<and> search_stock_news ddgs_open ''TCS'' ''TCS'' = ''No recent news found for TCS (TCS)''
    \<and> fst outcome = ''HOLD''"
proof -
  let ?ops = "\<lparr>num_str = str_of_nat, pct_return = (\<lambda>a b. Some ''1.25'')\<rparr>"
  let ?llm = "(\<lambda>prompt. Inr ''HOLD'') :: llm"
  let ?yf = "(\<lambda>t. Inl ''No data found'') :: nat market"
  let ?open = "Inr (\<lambda>q n region. Inr []) :: string + ddgs"
  let ?sd = "''Error fetching TCS.NS: No data found''"
  have g: "fst (get_stock_data ?ops ?yf ''TCS'') = Inr ?sd"
    by (simp add: get_stock_data_def try_fetch_stock_def suffix_def)
  have n: "after_first ''Company: '' ?sd = None"
    by simp
  then have ns: "\<not> sublist ''Company: '' ?sd"
    by (rule after_first_None [THEN iffD1])
  have news: "search_stock_news ?open ''TCS'' ''TCS'' = ''No recent news found for TCS (TCS)''"
    by (simp add: search_stock_news_def format_news_def aggregate_news_items query_items_def
        news_queries_def)
  note th = analysis_continues_on_fetch_error
    [where llm_init = "Inr ?llm" and gemini_llm = ?llm and ddgs_open = ?open, OF refl g]
  from th n have "snd (analyze_stock_simple ?ops (Inr ?llm) ?yf ?open ''TCS'') =
      [analysis_prompt ''TCS'' ?sd (search_stock_news ?open ''TCS'' ''TCS'')]"
    by (simp add: Let_def)
  moreover from th n have "fst (analyze_stock_simple ?ops (Inr ?llm) ?yf ?open ''TCS'') = ''HOLD''"
    by (simp add: Let_def)
  ultimately show ?thesis using g ns news unfolding Let_def by (intro conjI)
qed

section \<open>Properties of the multi-agent pipeline\<close>




end
